theory Spec2Isabelle
  imports Complex_Main
begin

section \<open>The sabermetrics engine of \<^verbatim>\<open>src/sabermetrics_engine.py\<close>\<close>

text \<open>
  The engine is a class of pure formulas over raw stat records. A record is a Python
  \<^verbatim>\<open>dict\<close> from stat codes to numbers, read with \<^verbatim>\<open>stats.get(key, 0)\<close>; it is
  modelled as a map from strings to numbers. Numbers are modelled as exact rationals:
  Python's \<^verbatim>\<open>/\<close> is true division, so a quotient of two counts is a fraction, and
  the rounding of IEEE doubles is not part of the model. Everything stated below is about
  the structure of the formulas (which quantity is divided by which, which guard selects
  which branch, where an exception leaves the function), none of it about rounding.

  An exception is a value: a function that can raise returns \<open>error + 'a\<close>, with
  \<open>Inl\<close> for the exception. The engine raises nothing itself; the two exceptions
  that its expressions can produce are the division by a zero divisor and the subscript
  \<^verbatim>\<open>d[k]\<close> of a missing key.
\<close>

type_synonym stats = "string \<rightharpoonup> rat"

datatype error = ZeroDivisionError | KeyError string

text \<open>\<^verbatim>\<open>d.get(k, dflt)\<close>\<close>

definition get :: "(string \<rightharpoonup> rat) \<Rightarrow> string \<Rightarrow> rat \<Rightarrow> rat" where
  "get d k dflt = (case d k of None \<Rightarrow> dflt | Some v \<Rightarrow> v)"

text \<open>\<^verbatim>\<open>d[k]\<close>, which raises \<^verbatim>\<open>KeyError\<close> on a missing key\<close>

definition item :: "(string \<rightharpoonup> 'a) \<Rightarrow> string \<Rightarrow> error + 'a" where
  "item d k = (case d k of None \<Rightarrow> Inl (KeyError k) | Some v \<Rightarrow> Inr v)"

text \<open>
  \<^verbatim>\<open>a / b\<close> with a divisor that no guard protects: Python raises
  \<^verbatim>\<open>ZeroDivisionError\<close> for a zero divisor, for \<^verbatim>\<open>int\<close> and \<^verbatim>\<open>float\<close> alike.
  Where the source guards the division (\<^verbatim>\<open>x / d if d > 0 else 0\<close>) or divides by a
  non-zero literal, the model writes the plain quotient.
\<close>

definition py_div :: "rat \<Rightarrow> rat \<Rightarrow> error + rat" where
  "py_div a b = (if b = 0 then Inl ZeroDivisionError else Inr (a / b))"

text \<open>Sequencing: the first exception leaves the function.\<close>

definition and_then :: "error + 'a \<Rightarrow> ('a \<Rightarrow> error + 'b) \<Rightarrow> error + 'b" where
  "and_then m f = (case m of Inl e \<Rightarrow> Inl e | Inr v \<Rightarrow> f v)"

text \<open>\<^verbatim>\<open>f(...)[k]\<close>: the entry \<open>k\<close> of a returned mapping\<close>

definition result_item :: "error + (string \<rightharpoonup> 'a) \<Rightarrow> string \<Rightarrow> error + 'a" where
  "result_item r k = and_then r (\<lambda>d. item d k)"

subsection \<open>The tables set by \<^verbatim>\<open>__init__\<close>\<close>

text \<open>
  \<^verbatim>\<open>self.league_constants\<close> and \<^verbatim>\<open>self.woba_weights\<close> are dictionaries with a
  fixed set of literal keys, written once by the constructor and only read afterwards with
  literal subscripts: they are records, one field per key (the weight fields carry the
  prefix \<open>w_\<close>, since a field name cannot start with a digit).
\<close>

record league_constants_table =
  wOBA_scale :: rat
  wOBA_league :: rat
  R_per_game_league :: rat
  wRC_league :: rat
  FIP_constant :: rat
  park_factor_neutral :: rat

definition league_constants :: league_constants_table where
  "league_constants =
     \<lparr>wOBA_scale = 1.255, wOBA_league = 0.320, R_per_game_league = 4.65,
      wRC_league = 100, FIP_constant = 3.10, park_factor_neutral = 1.000\<rparr>"

record woba_weights_table =
  w_uBB :: rat
  w_HBP :: rat
  w_1B :: rat
  w_2B :: rat
  w_3B :: rat
  w_HR :: rat

definition woba_weights :: woba_weights_table where
  "woba_weights =
     \<lparr>w_uBB = 0.690, w_HBP = 0.722, w_1B = 0.888, w_2B = 1.271, w_3B = 1.616,
      w_HR = 2.101\<rparr>"

subsection \<open>Batting formulas\<close>

definition calculate_basic_stats :: "stats \<Rightarrow> error + (string \<rightharpoonup> rat)" where
  "calculate_basic_stats stats =
     (let ab = get stats ''AB'' 0;
          h = get stats ''H'' 0;
          bb = get stats ''BB'' 0;
          sf = get stats ''SF'' 0;
          hbp = get stats ''HBP'' 0;
          pa = ab + bb + sf + hbp;
          basic_stats = Map.empty;
          basic_stats = basic_stats(''AVG'' \<mapsto> (if ab > 0 then h / ab else 0));
          basic_stats = basic_stats(''OBP'' \<mapsto> (if pa > 0 then (h + bb + hbp) / pa else 0));
          singles = get stats ''1B''
                      (h - get stats ''2B'' 0 - get stats ''3B'' 0 - get stats ''HR'' 0);
          total_bases = singles + (2 * get stats ''2B'' 0) + (3 * get stats ''3B'' 0)
                          + (4 * get stats ''HR'' 0);
          basic_stats = basic_stats(''SLG'' \<mapsto> (if ab > 0 then total_bases / ab else 0))
      in and_then (item basic_stats ''OBP'') (\<lambda>obp.
         and_then (item basic_stats ''SLG'') (\<lambda>slg.
         Inr (basic_stats(''OPS'' \<mapsto> obp + slg)))))"

definition calculate_woba :: "stats \<Rightarrow> rat" where
  "calculate_woba stats =
     (let bb = get stats ''BB'' 0 - get stats ''IBB'' 0;
          hbp = get stats ''HBP'' 0;
          singles = get stats ''1B'' 0;
          doubles = get stats ''2B'' 0;
          triples = get stats ''3B'' 0;
          hr = get stats ''HR'' 0;
          ab = get stats ''AB'' 0;
          sf = get stats ''SF'' 0;
          numerator = w_uBB woba_weights * bb
                    + w_HBP woba_weights * hbp
                    + w_1B woba_weights * singles
                    + w_2B woba_weights * doubles
                    + w_3B woba_weights * triples
                    + w_HR woba_weights * hr;
          denominator = ab + bb + sf + hbp
      in if denominator > 0 then numerator / denominator else 0)"

definition calculate_wrc_plus :: "stats \<Rightarrow> rat \<Rightarrow> error + rat" where
  "calculate_wrc_plus stats park_factor =
     (let woba = calculate_woba stats
      in py_div (((woba - wOBA_league league_constants) / wOBA_scale league_constants
                   + R_per_game_league league_constants) * 100) park_factor)"

definition calculate_babip :: "stats \<Rightarrow> rat" where
  "calculate_babip stats =
     (let h = get stats ''H'' 0;
          hr = get stats ''HR'' 0;
          ab = get stats ''AB'' 0;
          k = get stats ''K'' 0;
          sf = get stats ''SF'' 0;
          balls_in_play = ab - k - hr + sf;
          hits_in_play = h - hr
      in if balls_in_play > 0 then hits_in_play / balls_in_play else 0)"

definition calculate_iso :: "stats \<Rightarrow> error + rat" where
  "calculate_iso stats =
     and_then (calculate_basic_stats stats) (\<lambda>basic.
     and_then (item basic ''SLG'') (\<lambda>slg.
     and_then (item basic ''AVG'') (\<lambda>avg.
     Inr (slg - avg))))"

text \<open>
  \<^verbatim>\<open>calculate_ops_plus(stats, park_factor=1.0, league_obp=0.320, league_slg=0.425)\<close>.
  In each conditional expression the condition is evaluated first, so the subscript of
  \<^verbatim>\<open>basic\<close> is evaluated only when the league value is positive.
\<close>

definition calculate_ops_plus :: "stats \<Rightarrow> rat \<Rightarrow> rat \<Rightarrow> rat \<Rightarrow> error + rat" where
  "calculate_ops_plus stats park_factor league_obp league_slg =
     and_then (calculate_basic_stats stats) (\<lambda>basic.
     and_then (if league_obp > 0
               then and_then (item basic ''OBP'') (\<lambda>obp. Inr (obp / league_obp))
               else Inr 1) (\<lambda>obp_ratio.
     and_then (if league_slg > 0
               then and_then (item basic ''SLG'') (\<lambda>slg. Inr (slg / league_slg))
               else Inr 1) (\<lambda>slg_ratio.
     py_div (100 * (obp_ratio + slg_ratio - 1)) park_factor)))"

text \<open>The default values of the optional parameters.\<close>

definition default_park_factor :: rat where
  "default_park_factor = 1.0"

definition default_league_obp :: rat where
  "default_league_obp = 0.320"

definition default_league_slg :: rat where
  "default_league_slg = 0.425"

text \<open>
  \<^verbatim>\<open>calculate_comprehensive_player_metrics(batting_stats, park_factor=1.0)\<close>. The
  call of \<^verbatim>\<open>calculate_ops_plus\<close> passes the park factor and leaves the league values
  at their defaults.
\<close>

definition calculate_comprehensive_player_metrics ::
    "stats \<Rightarrow> rat \<Rightarrow> error + (string \<rightharpoonup> rat)" where
  "calculate_comprehensive_player_metrics batting_stats park_factor =
     (let metrics = Map.empty
      in and_then (calculate_basic_stats batting_stats) (\<lambda>basic.
         let metrics = metrics ++ basic;
             metrics = metrics(''wOBA'' \<mapsto> calculate_woba batting_stats)
         in and_then (calculate_wrc_plus batting_stats park_factor) (\<lambda>wrc_plus.
            let metrics = metrics(''wRC+'' \<mapsto> wrc_plus);
                metrics = metrics(''BABIP'' \<mapsto> calculate_babip batting_stats)
            in and_then (calculate_iso batting_stats) (\<lambda>iso.
               let metrics = metrics(''ISO'' \<mapsto> iso)
               in and_then (calculate_ops_plus batting_stats park_factor
                              default_league_obp default_league_slg) (\<lambda>ops_plus.
                  let metrics = metrics(''OPS+'' \<mapsto> ops_plus);
                      metrics = metrics(''BB_Rate'' \<mapsto>
                        (if get batting_stats ''AB'' 0 + get batting_stats ''BB'' 0 > 0
                         then get batting_stats ''BB'' 0
                                / (get batting_stats ''AB'' 0 + get batting_stats ''BB'' 0)
                         else 0));
                      metrics = metrics(''K_Rate'' \<mapsto>
                        (if get batting_stats ''AB'' 0 + get batting_stats ''BB'' 0 > 0
                         then get batting_stats ''K'' 0
                                / (get batting_stats ''AB'' 0 + get batting_stats ''BB'' 0)
                         else 0))
                  in Inr metrics)))))"

subsection \<open>Pitching formulas\<close>

definition calculate_pitcher_fip :: "stats \<Rightarrow> rat" where
  "calculate_pitcher_fip stats =
     (let hr = get stats ''HR'' 0;
          bb = get stats ''BB'' 0;
          hbp = get stats ''HBP'' 0;
          k = get stats ''K'' 0;
          ip = get stats ''IP'' 0
      in if ip \<le> 0 then 0
         else ((13 * hr + 3 * (bb + hbp) - 2 * k) / ip) + FIP_constant league_constants)"

definition calculate_pitcher_whip :: "stats \<Rightarrow> rat" where
  "calculate_pitcher_whip stats =
     (let bb = get stats ''BB'' 0;
          h = get stats ''H'' 0;
          ip = get stats ''IP'' 0
      in if ip > 0 then (bb + h) / ip else 0)"

definition calculate_pitcher_metrics :: "stats \<Rightarrow> (string \<rightharpoonup> rat)" where
  "calculate_pitcher_metrics pitching_stats =
     (let metrics = Map.empty;
          ip = get pitching_stats ''IP'' 0;
          er = get pitching_stats ''ER'' 0;
          h = get pitching_stats ''H'' 0;
          bb = get pitching_stats ''BB'' 0;
          k = get pitching_stats ''K'' 0;
          metrics = metrics(''ERA'' \<mapsto> (if ip > 0 then (er * 9) / ip else 0));
          metrics = metrics(''WHIP'' \<mapsto> calculate_pitcher_whip pitching_stats);
          metrics = metrics(''FIP'' \<mapsto> calculate_pitcher_fip pitching_stats);
          metrics = metrics(''K_per_9'' \<mapsto> (if ip > 0 then (k * 9) / ip else 0));
          metrics = metrics(''BB_per_9'' \<mapsto> (if ip > 0 then (bb * 9) / ip else 0));
          metrics = metrics(''HR_per_9'' \<mapsto>
                      (if ip > 0 then (get pitching_stats ''HR'' 0 * 9) / ip else 0));
          metrics = metrics(''K_BB_ratio'' \<mapsto>
                      (if bb > 0 then k / bb else if k > 0 then k else 0))
      in metrics)"

subsection \<open>Comparison of two players\<close>

text \<open>
  One entry of the comparison table: the inner dictionary with the four literal keys
  \<^verbatim>\<open>player1\<close>, \<^verbatim>\<open>player2\<close>, \<^verbatim>\<open>difference\<close>, \<^verbatim>\<open>player1_better\<close>.
\<close>

record comparison_entry =
  player1 :: rat
  player2 :: rat
  difference :: rat
  player1_better :: bool

definition default_metrics :: "string list" where
  "default_metrics =
     [''AVG'', ''OBP'', ''SLG'', ''OPS'', ''wOBA'', ''wRC+'', ''BABIP'', ''ISO'']"

text \<open>
  The loop \<^verbatim>\<open>for metric in metrics\<close>, with the table built so far as accumulator.
  The two subscripts are behind the membership test, so they are read by a case
  distinction on the two lookups.
\<close>

fun compare_loop ::
    "(string \<rightharpoonup> rat) \<Rightarrow> (string \<rightharpoonup> rat) \<Rightarrow> string list
       \<Rightarrow> (string \<rightharpoonup> comparison_entry) \<Rightarrow> (string \<rightharpoonup> comparison_entry)" where
  "compare_loop p1_metrics p2_metrics [] comparison = comparison"
| "compare_loop p1_metrics p2_metrics (metric # rest) comparison =
     compare_loop p1_metrics p2_metrics rest
       (case (p1_metrics metric, p2_metrics metric) of
          (Some v1, Some v2) \<Rightarrow>
            comparison(metric \<mapsto>
              \<lparr>player1 = v1, player2 = v2, difference = v1 - v2, player1_better = (v1 > v2)\<rparr>)
        | _ \<Rightarrow> comparison)"

text \<open>
  \<^verbatim>\<open>compare_players(player1_stats, player2_stats, metrics=None)\<close>; both metric sets are
  computed with the default park factor.
\<close>

definition compare_players ::
    "stats \<Rightarrow> stats \<Rightarrow> string list option \<Rightarrow> error + (string \<rightharpoonup> comparison_entry)" where
  "compare_players player1_stats player2_stats metrics =
     (let metrics = (case metrics of None \<Rightarrow> default_metrics | Some ms \<Rightarrow> ms)
      in and_then (calculate_comprehensive_player_metrics player1_stats default_park_factor)
           (\<lambda>p1_metrics.
         and_then (calculate_comprehensive_player_metrics player2_stats default_park_factor)
           (\<lambda>p2_metrics.
         Inr (compare_loop p1_metrics p2_metrics metrics Map.empty))))"

subsection \<open>The approximation of wins above replacement\<close>

definition position_adjustments :: "string \<rightharpoonup> rat" where
  "position_adjustments =
     map_of [(''C'', 12.5), (''1B'', -12.5), (''2B'', 2.5), (''3B'', 2.5),
             (''SS'', 7.5), (''LF'', -7.5), (''CF'', 2.5), (''RF'', -7.5), (''DH'', -17.5)]"

text \<open>
  \<^verbatim>\<open>calculate_war_approximation(batting_stats, fielding_stats=None, position='OF')\<close>.
  The second parameter is an optional record; \<open>None\<close> is Python's \<^verbatim>\<open>None\<close>.
\<close>

definition calculate_war_approximation :: "stats \<Rightarrow> stats option \<Rightarrow> string \<Rightarrow> error + rat" where
  "calculate_war_approximation batting_stats fielding_stats position =
     and_then (calculate_wrc_plus batting_stats default_park_factor) (\<lambda>wrc_plus.
       let pa = get batting_stats ''AB'' 0 + get batting_stats ''BB'' 0
                  + get batting_stats ''SF'' 0 + get batting_stats ''HBP'' 0;
           offensive_value = ((wrc_plus - 100) / 100) * (pa / 700) * 20;
           position_adj = get position_adjustments position 0 * (pa / 700);
           replacement_level = 2.0 * (pa / 700);
           war_approx = offensive_value + position_adj + replacement_level
       in Inr (max 0 war_approx))"

subsection \<open>Records used as examples\<close>

text \<open>The record of \<^verbatim>\<open>demo_sabermetrics\<close> in the engine's own file.\<close>

definition trout_stats :: stats where
  "trout_stats =
     map_of [(''AB'', 473), (''H'', 134), (''BB'', 89), (''HBP'', 3), (''SF'', 4),
             (''1B'', 82), (''2B'', 21), (''3B'', 1), (''HR'', 30), (''K'', 124),
             (''IBB'', 18)]"

text \<open>A record is all-zero when every key it has is mapped to 0; the empty record is one.\<close>

definition all_zero :: "stats \<Rightarrow> bool" where
  "all_zero stats \<longleftrightarrow> (\<forall>k v. stats k = Some v \<longrightarrow> v = 0)"

definition all_zero_record :: stats where
  "all_zero_record =
     map_of [(''AB'', 0), (''H'', 0), (''BB'', 0), (''IBB'', 0), (''HBP'', 0), (''SF'', 0),
             (''SH'', 0), (''K'', 0), (''1B'', 0), (''2B'', 0), (''3B'', 0), (''HR'', 0),
             (''RBI'', 0), (''R'', 0), (''SB'', 0), (''CS'', 0)]"

text \<open>
  The invariants that the data model of the specification gives for a batting record: every
  count is non-negative, and the hits cover the extra-base hits.
\<close>

definition valid_record :: "stats \<Rightarrow> bool" where
  "valid_record stats \<longleftrightarrow>
     (\<forall>k v. stats k = Some v \<longrightarrow> 0 \<le> v)
     \<and> get stats ''2B'' 0 + get stats ''3B'' 0 + get stats ''HR'' 0 \<le> get stats ''H'' 0"

text \<open>A batter whose only plate appearance is a walk.\<close>

definition walk_only :: stats where
  "walk_only = map_of [(''AB'', 0), (''H'', 0), (''BB'', 1)]"

text \<open>Two records without the key \<^verbatim>\<open>1B\<close>: one with more doubles than hits, one consistent.\<close>

definition more_doubles_than_hits :: stats where
  "more_doubles_than_hits = map_of [(''AB'', 4), (''H'', 1), (''2B'', 2)]"

definition two_hits_no_singles_key :: stats where
  "two_hits_no_singles_key = map_of [(''AB'', 4), (''H'', 2)]"

subsection \<open>Formulas as the specification words them\<close>

text \<open>
  These definitions follow the wording of the specification, not the source; they are what
  the source is compared with.

  wOBA with the denominator \<open>AB + BB + SF + HBP\<close>, \<open>BB\<close> being the total walks of the record.
\<close>

definition woba_as_specified :: "stats \<Rightarrow> rat" where
  "woba_as_specified stats =
     (let numerator = w_uBB woba_weights * (get stats ''BB'' 0 - get stats ''IBB'' 0)
                    + w_HBP woba_weights * get stats ''HBP'' 0
                    + w_1B woba_weights * get stats ''1B'' 0
                    + w_2B woba_weights * get stats ''2B'' 0
                    + w_3B woba_weights * get stats ''3B'' 0
                    + w_HR woba_weights * get stats ''HR'' 0;
          denominator = get stats ''AB'' 0 + get stats ''BB'' 0 + get stats ''SF'' 0
                          + get stats ''HBP'' 0
      in if denominator > 0 then numerator / denominator else 0)"

text \<open>
  Singles as the data model words them: the entry \<^verbatim>\<open>1B\<close> when the record has one,
  otherwise \<open>H - 2B - 3B - HR\<close>, a negative value counted as 0; and the slugging percentage
  and the wOBA computed from singles resolved that way.
\<close>

definition singles_as_specified :: "stats \<Rightarrow> rat" where
  "singles_as_specified stats =
     (case stats ''1B'' of
        Some s \<Rightarrow> s
      | None \<Rightarrow> max 0 (get stats ''H'' 0 - get stats ''2B'' 0 - get stats ''3B'' 0
                         - get stats ''HR'' 0))"

definition slg_as_specified :: "stats \<Rightarrow> rat" where
  "slg_as_specified stats =
     (if get stats ''AB'' 0 > 0
      then (singles_as_specified stats + 2 * get stats ''2B'' 0 + 3 * get stats ''3B'' 0
              + 4 * get stats ''HR'' 0) / get stats ''AB'' 0
      else 0)"

definition woba_with_singles_as_specified :: "stats \<Rightarrow> rat" where
  "woba_with_singles_as_specified stats =
     (let bb = get stats ''BB'' 0 - get stats ''IBB'' 0;
          numerator = w_uBB woba_weights * bb
                    + w_HBP woba_weights * get stats ''HBP'' 0
                    + w_1B woba_weights * singles_as_specified stats
                    + w_2B woba_weights * get stats ''2B'' 0
                    + w_3B woba_weights * get stats ''3B'' 0
                    + w_HR woba_weights * get stats ''HR'' 0;
          denominator = get stats ''AB'' 0 + bb + get stats ''SF'' 0 + get stats ''HBP'' 0
      in if denominator > 0 then numerator / denominator else 0)"

section \<open>Which functions return\<close>

text \<open>
  The basic statistics never raise: every division is behind its guard and the two
  subscripts read keys that were just written. The result has exactly the four keys.
\<close>

lemma calculate_basic_stats_returns:
  "\<exists>basic. calculate_basic_stats stats = Inr basic
      \<and> dom basic = {''AVG'', ''OBP'', ''SLG'', ''OPS''}"
  unfolding calculate_basic_stats_def Let_def
  by (auto simp add: item_def and_then_def)

lemma calculate_iso_returns: "\<exists>iso. calculate_iso stats = Inr iso"
  unfolding calculate_iso_def calculate_basic_stats_def Let_def
  by (simp add: item_def and_then_def)

lemma calculate_wrc_plus_returns:
  "park_factor \<noteq> 0 \<Longrightarrow> \<exists>v. calculate_wrc_plus stats park_factor = Inr v"
  by (simp add: calculate_wrc_plus_def py_div_def)

lemma calculate_ops_plus_returns:
  "park_factor \<noteq> 0 \<Longrightarrow> \<exists>v. calculate_ops_plus stats park_factor league_obp league_slg = Inr v"
  unfolding calculate_ops_plus_def calculate_basic_stats_def Let_def
  by (simp add: item_def and_then_def py_div_def)

lemma comprehensive_returns:
  assumes "park_factor \<noteq> 0"
  shows "\<exists>metrics. calculate_comprehensive_player_metrics stats park_factor = Inr metrics"
proof -
  obtain basic where b: "calculate_basic_stats stats = Inr basic"
    using calculate_basic_stats_returns by blast
  obtain w where w: "calculate_wrc_plus stats park_factor = Inr w"
    using calculate_wrc_plus_returns [OF assms] by blast
  obtain i where i: "calculate_iso stats = Inr i"
    using calculate_iso_returns by blast
  obtain p where p:
    "calculate_ops_plus stats park_factor default_league_obp default_league_slg = Inr p"
    using calculate_ops_plus_returns [OF assms] by blast
  show ?thesis
    unfolding calculate_comprehensive_player_metrics_def Let_def
    by (simp add: b w i p and_then_def)
qed

lemma default_park_factor_nonzero: "default_park_factor \<noteq> 0"
  by (simp add: default_park_factor_def)

section \<open>The all-zero record\<close>

lemma all_zero_get: "all_zero stats \<Longrightarrow> get stats k 0 = 0"
  by (auto simp add: all_zero_def get_def split: option.splits)

lemma calculate_basic_stats_all_zero:
  assumes "all_zero stats"
  shows "calculate_basic_stats stats =
           Inr [''AVG'' \<mapsto> 0, ''OBP'' \<mapsto> 0, ''SLG'' \<mapsto> 0, ''OPS'' \<mapsto> 0]"
  unfolding calculate_basic_stats_def Let_def
  by (simp add: all_zero_get [OF assms] item_def and_then_def)

text \<open>
  Claim C1 says that for an all-zero batting record the comprehensive metrics raise nothing
  and every one of the eleven metrics is 0. The first half holds; the second fails for the
  two indices that have no data-derived divisor. With a wOBA of 0 the wRC+ formula gives
  \<open>((0 - 0.320) / 1.255 + 4.65) * 100 = 110315 / 251\<close>, about 439.5, and the OPS+ formula
  gives \<open>100 * (0 + 0 - 1) = -100\<close>.
\<close>

theorem all_zero_record_counterexample:
  "result_item (calculate_comprehensive_player_metrics all_zero_record default_park_factor)
       ''wRC+'' = Inr (110315 / 251)
   \<and> result_item (calculate_comprehensive_player_metrics all_zero_record default_park_factor)
       ''OPS+'' = Inr (- 100)"
  unfolding calculate_comprehensive_player_metrics_def calculate_basic_stats_def
    calculate_wrc_plus_def calculate_ops_plus_def calculate_iso_def calculate_woba_def
    calculate_babip_def Let_def result_item_def
  by (simp add: all_zero_record_def get_def item_def and_then_def py_div_def
        league_constants_def woba_weights_def default_park_factor_def default_league_obp_def
        default_league_slg_def)

text \<open>
  Claim C1 as amended: for every all-zero batting record and the default park factor, the
  comprehensive metrics raise nothing and return the eleven metrics, of which AVG, OBP, SLG,
  OPS, wOBA, BABIP, ISO, BB_Rate and K_Rate are 0, wRC+ is \<open>110315 / 251\<close> and OPS+ is
  \<open>-100\<close>.
\<close>

theorem all_zero_record_metrics:
  assumes "all_zero stats"
  shows "calculate_comprehensive_player_metrics stats default_park_factor =
           Inr [''AVG'' \<mapsto> 0, ''OBP'' \<mapsto> 0, ''SLG'' \<mapsto> 0, ''OPS'' \<mapsto> 0, ''wOBA'' \<mapsto> 0,
                ''wRC+'' \<mapsto> 110315 / 251, ''BABIP'' \<mapsto> 0, ''ISO'' \<mapsto> 0, ''OPS+'' \<mapsto> - 100,
                ''BB_Rate'' \<mapsto> 0, ''K_Rate'' \<mapsto> 0]"
proof -
  note z = all_zero_get [OF assms]
  note b = calculate_basic_stats_all_zero [OF assms]
  have woba: "calculate_woba stats = 0"
    by (simp add: calculate_woba_def Let_def z)
  have wrc: "calculate_wrc_plus stats default_park_factor = Inr (110315 / 251)"
    by (simp add: calculate_wrc_plus_def Let_def woba py_div_def league_constants_def
          default_park_factor_def)
  have babip: "calculate_babip stats = 0"
    by (simp add: calculate_babip_def Let_def z)
  have iso: "calculate_iso stats = Inr 0"
    by (simp add: calculate_iso_def b item_def and_then_def)
  have ops: "calculate_ops_plus stats default_park_factor default_league_obp default_league_slg
               = Inr (- 100)"
    by (simp add: calculate_ops_plus_def b item_def and_then_def py_div_def
          default_park_factor_def default_league_obp_def default_league_slg_def)
  show ?thesis
    unfolding calculate_comprehensive_player_metrics_def Let_def
    by (simp add: b woba wrc babip iso ops z and_then_def)
qed

theorem all_zero_record_metrics_witness:
  "all_zero all_zero_record \<and>
   calculate_comprehensive_player_metrics all_zero_record default_park_factor =
     Inr [''AVG'' \<mapsto> 0, ''OBP'' \<mapsto> 0, ''SLG'' \<mapsto> 0, ''OPS'' \<mapsto> 0, ''wOBA'' \<mapsto> 0,
          ''wRC+'' \<mapsto> 110315 / 251, ''BABIP'' \<mapsto> 0, ''ISO'' \<mapsto> 0, ''OPS+'' \<mapsto> - 100,
          ''BB_Rate'' \<mapsto> 0, ''K_Rate'' \<mapsto> 0]"
proof -
  have z: "all_zero all_zero_record"
    by (simp add: all_zero_def all_zero_record_def)
  show ?thesis using z all_zero_record_metrics [OF z] by simp
qed

section \<open>Isolated power\<close>

text \<open>
  Claim C7: for every record, \<^verbatim>\<open>calculate_iso\<close> is exactly the SLG entry minus the AVG
  entry of \<^verbatim>\<open>calculate_basic_stats\<close> for that record, a negative difference included.
  The function reads both entries from one call of the basic statistics and returns their
  difference without a guard or a clamp, so the identity does not depend on how the
  subtraction rounds.
\<close>

theorem iso_is_slg_minus_avg:
  "\<exists>slg avg. result_item (calculate_basic_stats stats) ''SLG'' = Inr slg
     \<and> result_item (calculate_basic_stats stats) ''AVG'' = Inr avg
     \<and> calculate_iso stats = Inr (slg - avg)"
  unfolding calculate_iso_def result_item_def calculate_basic_stats_def Let_def
  by (simp add: item_def and_then_def)

text \<open>
  A record whose \<^verbatim>\<open>1B\<close> entry is smaller than its hits has fewer total bases than hits:
  the difference is negative and is returned as it is.
\<close>

lemma iso_negative_example:
  "calculate_iso (map_of [(''AB'', 4), (''H'', 2), (''1B'', 1)]) = Inr (- (1 / 4))"
  unfolding calculate_iso_def calculate_basic_stats_def Let_def
  by (simp add: get_def item_def and_then_def)

section \<open>Comparison of two players\<close>

lemma compare_loop_lookup:
  "compare_loop p1 p2 ms c m =
     (if m \<in> set ms
      then (case (p1 m, p2 m) of
              (Some v1, Some v2) \<Rightarrow>
                Some \<lparr>player1 = v1, player2 = v2, difference = v1 - v2,
                      player1_better = (v1 > v2)\<rparr>
            | _ \<Rightarrow> c m)
      else c m)"
  by (induction ms arbitrary: c) (auto split: option.splits)

lemma compare_loop_swap:
  "map_option difference (compare_loop p1 p2 ms Map.empty m)
     = map_option (\<lambda>e. - difference e) (compare_loop p2 p1 ms Map.empty m)"
  by (simp add: compare_loop_lookup split: option.splits)

text \<open>
  Claim C9: for every pair of records and every metric present in both results, the
  difference that \<^verbatim>\<open>compare_players(A, B)\<close> reports is the exact negative of the one
  that \<^verbatim>\<open>compare_players(B, A)\<close> reports. Both calls return a table, the two tables have
  the same metrics, and on each of them the differences are negatives of each other.
\<close>

theorem compare_players_difference_negated:
  "\<exists>ab ba. compare_players a b metrics = Inr ab \<and> compare_players b a metrics = Inr ba
      \<and> (\<forall>metric. map_option difference (ab metric)
                     = map_option (\<lambda>e. - difference e) (ba metric))"
proof -
  obtain ma where ma: "calculate_comprehensive_player_metrics a default_park_factor = Inr ma"
    using comprehensive_returns [OF default_park_factor_nonzero] by blast
  obtain mb where mb: "calculate_comprehensive_player_metrics b default_park_factor = Inr mb"
    using comprehensive_returns [OF default_park_factor_nonzero] by blast
  show ?thesis
    unfolding compare_players_def Let_def
    by (simp add: ma mb and_then_def compare_loop_swap)
qed

text \<open>
  The tables are not empty: with the default metric list, the table has exactly the eight
  default metrics, whatever the two records are.
\<close>

lemma comprehensive_has_default_metrics:
  assumes "park_factor \<noteq> 0"
  shows "\<exists>metrics. calculate_comprehensive_player_metrics stats park_factor = Inr metrics
           \<and> set default_metrics \<subseteq> dom metrics"
proof -
  obtain basic where b: "calculate_basic_stats stats = Inr basic"
    and d: "dom basic = {''AVG'', ''OBP'', ''SLG'', ''OPS''}"
    using calculate_basic_stats_returns by blast
  have k: "''AVG'' \<in> dom basic" "''OBP'' \<in> dom basic" "''SLG'' \<in> dom basic"
    "''OPS'' \<in> dom basic"
    unfolding d by simp_all
  obtain w where w: "calculate_wrc_plus stats park_factor = Inr w"
    using calculate_wrc_plus_returns [OF assms] by blast
  obtain i where i: "calculate_iso stats = Inr i"
    using calculate_iso_returns by blast
  obtain p where p:
    "calculate_ops_plus stats park_factor default_league_obp default_league_slg = Inr p"
    using calculate_ops_plus_returns [OF assms] by blast
  show ?thesis
    unfolding calculate_comprehensive_player_metrics_def Let_def default_metrics_def
    using k by (simp add: b w i p and_then_def)
qed

lemma compare_loop_dom:
  "dom (compare_loop p1 p2 ms Map.empty) = set ms \<inter> dom p1 \<inter> dom p2"
  by (auto simp add: compare_loop_lookup dom_def split: option.splits if_splits)

lemma compare_players_default_table:
  "\<exists>table. compare_players a b None = Inr table \<and> dom table = set default_metrics"
proof -
  obtain ma where ma: "calculate_comprehensive_player_metrics a default_park_factor = Inr ma"
    and da: "set default_metrics \<subseteq> dom ma"
    using comprehensive_has_default_metrics [OF default_park_factor_nonzero] by blast
  obtain mb where mb: "calculate_comprehensive_player_metrics b default_park_factor = Inr mb"
    and db: "set default_metrics \<subseteq> dom mb"
    using comprehensive_has_default_metrics [OF default_park_factor_nonzero] by blast
  have "set default_metrics \<inter> dom ma \<inter> dom mb = set default_metrics"
    using da db by blast
  then show ?thesis
    unfolding compare_players_def Let_def
    by (simp add: ma mb and_then_def compare_loop_dom)
qed

section \<open>The approximation of wins above replacement\<close>

text \<open>The function always returns, and its value is floored at 0.\<close>

lemma calculate_war_approximation_returns:
  "\<exists>war. calculate_war_approximation batting_stats fielding_stats position = Inr war \<and> 0 \<le> war"
  by (simp add: calculate_war_approximation_def calculate_wrc_plus_def py_div_def
        default_park_factor_def and_then_def Let_def)

text \<open>
  Claim C10: the result of \<^verbatim>\<open>calculate_war_approximation\<close> does not depend on its
  \<^verbatim>\<open>fielding_stats\<close> argument: for every batting record and position, any two values
  of that argument, \<^verbatim>\<open>None\<close> included, give the same result.
\<close>

theorem war_independent_of_fielding_stats:
  "calculate_war_approximation batting_stats fielding_stats1 position
     = calculate_war_approximation batting_stats fielding_stats2 position"
  by (simp add: calculate_war_approximation_def)

section \<open>The calibration parameters\<close>

text \<open>
  Neither index checks a calibration parameter. The park factor is the divisor of the last
  division and nothing else: a zero park factor is Python's division error, any other
  value divides. The league values of OPS+ are behind a guard that replaces the ratio by 1.
\<close>

lemma calculate_wrc_plus_value:
  "calculate_wrc_plus stats park_factor =
     (if park_factor = 0 then Inl ZeroDivisionError
      else Inr (((calculate_woba stats - 0.320) / 1.255 + 4.65) * 100 / park_factor))"
  by (simp add: calculate_wrc_plus_def py_div_def league_constants_def)

lemma calculate_ops_plus_value:
  "\<exists>obp slg. result_item (calculate_basic_stats stats) ''OBP'' = Inr obp
     \<and> result_item (calculate_basic_stats stats) ''SLG'' = Inr slg
     \<and> (\<forall>park_factor league_obp league_slg.
          calculate_ops_plus stats park_factor league_obp league_slg =
            (if park_factor = 0 then Inl ZeroDivisionError
             else Inr (100 * ((if league_obp > 0 then obp / league_obp else 1)
                               + (if league_slg > 0 then slg / league_slg else 1) - 1)
                         / park_factor)))"
  unfolding calculate_ops_plus_def result_item_def calculate_basic_stats_def Let_def
  by (simp add: item_def and_then_def py_div_def)

text \<open>The example record of the source: its OBP, SLG and wOBA.\<close>

lemma trout_obp: "result_item (calculate_basic_stats trout_stats) ''OBP'' = Inr (226 / 569)"
  unfolding result_item_def calculate_basic_stats_def Let_def
  by (simp add: trout_stats_def get_def item_def and_then_def)

lemma trout_slg: "result_item (calculate_basic_stats trout_stats) ''SLG'' = Inr (247 / 473)"
  unfolding result_item_def calculate_basic_stats_def Let_def
  by (simp add: trout_stats_def get_def item_def and_then_def)

lemma trout_woba: "calculate_woba trout_stats = 215309 / 551000"
  unfolding calculate_woba_def Let_def
  by (simp add: trout_stats_def get_def woba_weights_def)

text \<open>
  Claim C2 says that a park factor of 0 or below makes \<^verbatim>\<open>calculate_wrc_plus\<close> and
  \<^verbatim>\<open>calculate_ops_plus\<close> raise or return an explicit misconfiguration error. With a
  park factor of \<open>-1\<close> both return a number, the value of the formula with its sign
  turned.
\<close>

theorem negative_park_factor_counterexample:
  "calculate_wrc_plus trout_stats (- 1) = Inr (- (65089745 / 138301))
   \<and> calculate_ops_plus trout_stats (- 1) default_league_obp default_league_slg
       = Inr (- (672534725 / 4575329))"
  unfolding calculate_wrc_plus_def calculate_ops_plus_def calculate_woba_def
    calculate_basic_stats_def Let_def
  by (simp add: trout_stats_def get_def item_def and_then_def py_div_def
        league_constants_def woba_weights_def default_league_obp_def default_league_slg_def)

text \<open>
  Claim C2 as amended: for every record, a park factor of 0 makes both functions raise
  Python's \<^verbatim>\<open>ZeroDivisionError\<close>, from the division itself, and a negative park factor
  raises nothing: both return the value of their formula divided by it.
\<close>

theorem park_factor_is_only_a_divisor:
  "\<exists>obp slg. result_item (calculate_basic_stats stats) ''OBP'' = Inr obp
     \<and> result_item (calculate_basic_stats stats) ''SLG'' = Inr slg
     \<and> calculate_wrc_plus stats 0 = Inl ZeroDivisionError
     \<and> calculate_ops_plus stats 0 league_obp league_slg = Inl ZeroDivisionError
     \<and> (park_factor < 0 \<longrightarrow>
           calculate_wrc_plus stats park_factor
             = Inr (((calculate_woba stats - 0.320) / 1.255 + 4.65) * 100 / park_factor)
           \<and> calculate_ops_plus stats park_factor league_obp league_slg
             = Inr (100 * ((if league_obp > 0 then obp / league_obp else 1)
                            + (if league_slg > 0 then slg / league_slg else 1) - 1)
                      / park_factor))"
proof -
  obtain obp slg where
    obp: "result_item (calculate_basic_stats stats) ''OBP'' = Inr obp" and
    slg: "result_item (calculate_basic_stats stats) ''SLG'' = Inr slg" and
    ops: "\<And>pf. calculate_ops_plus stats pf league_obp league_slg =
            (if pf = 0 then Inl ZeroDivisionError
             else Inr (100 * ((if league_obp > 0 then obp / league_obp else 1)
                               + (if league_slg > 0 then slg / league_slg else 1) - 1) / pf))"
    using calculate_ops_plus_value [of stats] by blast
  show ?thesis
    using obp slg by (simp add: ops calculate_wrc_plus_value)
qed

theorem park_factor_is_only_a_divisor_witness:
  "(- 1 :: rat) < 0
   \<and> calculate_wrc_plus trout_stats 0 = Inl ZeroDivisionError
   \<and> calculate_ops_plus trout_stats 0 default_league_obp default_league_slg
       = Inl ZeroDivisionError
   \<and> calculate_wrc_plus trout_stats (- 1) = Inr (- (65089745 / 138301))
   \<and> calculate_ops_plus trout_stats (- 1) default_league_obp default_league_slg
       = Inr (- (672534725 / 4575329))"
  using park_factor_is_only_a_divisor
          [of trout_stats default_league_obp default_league_slg "- 1"]
  by (auto simp add: trout_obp trout_slg trout_woba default_league_obp_def
        default_league_slg_def)

text \<open>
  Claim C4 says that a league OBP or a league SLG of 0 makes \<^verbatim>\<open>calculate_ops_plus\<close>
  raise or return an explicit misconfiguration error instead of substituting a default
  ratio. On the example record each of the three calls returns a number.
\<close>

theorem zero_league_baseline_counterexample:
  "calculate_ops_plus trout_stats default_park_factor 0 default_league_slg
     = Inr (988000 / 8041)
   \<and> calculate_ops_plus trout_stats default_park_factor default_league_obp 0
     = Inr (70625 / 569)
   \<and> calculate_ops_plus trout_stats default_park_factor 0 0 = Inr 100"
  unfolding calculate_ops_plus_def calculate_basic_stats_def Let_def
  by (simp add: trout_stats_def get_def item_def and_then_def py_div_def
        default_park_factor_def default_league_obp_def default_league_slg_def)

text \<open>
  Claim C4 as amended: for every record and every non-zero park factor,
  \<^verbatim>\<open>calculate_ops_plus\<close> raises nothing when a league value is 0 or negative; it takes
  the ratio of that league value to be 1 and returns
  \<open>100 * (obp_ratio + slg_ratio - 1) / park_factor\<close>.
\<close>

theorem league_baseline_not_positive_gives_ratio_one:
  assumes "park_factor \<noteq> 0"
  shows "\<exists>obp slg. result_item (calculate_basic_stats stats) ''OBP'' = Inr obp
     \<and> result_item (calculate_basic_stats stats) ''SLG'' = Inr slg
     \<and> (league_obp \<le> 0 \<and> 0 < league_slg \<longrightarrow>
           calculate_ops_plus stats park_factor league_obp league_slg
             = Inr (100 * (1 + slg / league_slg - 1) / park_factor))
     \<and> (0 < league_obp \<and> league_slg \<le> 0 \<longrightarrow>
           calculate_ops_plus stats park_factor league_obp league_slg
             = Inr (100 * (obp / league_obp + 1 - 1) / park_factor))
     \<and> (league_obp \<le> 0 \<and> league_slg \<le> 0 \<longrightarrow>
           calculate_ops_plus stats park_factor league_obp league_slg
             = Inr (100 * (1 + 1 - 1) / park_factor))"
proof -
  obtain obp slg where
    obp: "result_item (calculate_basic_stats stats) ''OBP'' = Inr obp" and
    slg: "result_item (calculate_basic_stats stats) ''SLG'' = Inr slg" and
    ops: "calculate_ops_plus stats park_factor league_obp league_slg =
            (if park_factor = 0 then Inl ZeroDivisionError
             else Inr (100 * ((if league_obp > 0 then obp / league_obp else 1)
                               + (if league_slg > 0 then slg / league_slg else 1) - 1)
                         / park_factor))"
    using calculate_ops_plus_value [of stats] by blast
  show ?thesis
    using obp slg assms by (auto simp add: ops)
qed

theorem league_baseline_not_positive_gives_ratio_one_witness:
  "default_park_factor \<noteq> 0
   \<and> (0 :: rat) \<le> 0 \<and> 0 < default_league_slg \<and> 0 < default_league_obp
   \<and> calculate_ops_plus trout_stats default_park_factor 0 default_league_slg
       = Inr (988000 / 8041)
   \<and> calculate_ops_plus trout_stats default_park_factor default_league_obp 0
       = Inr (70625 / 569)
   \<and> calculate_ops_plus trout_stats default_park_factor 0 0 = Inr 100"
proof -
  have pf: "default_park_factor \<noteq> 0" by (simp add: default_park_factor_def)
  show ?thesis
    using league_baseline_not_positive_gives_ratio_one [OF pf, of trout_stats 0 default_league_slg]
      league_baseline_not_positive_gives_ratio_one [OF pf, of trout_stats default_league_obp 0]
      league_baseline_not_positive_gives_ratio_one [OF pf, of trout_stats 0 0]
    by (auto simp add: trout_obp trout_slg default_park_factor_def default_league_obp_def
          default_league_slg_def)
qed

section \<open>Weighted on-base average\<close>

text \<open>
  Claim C3 says that \<^verbatim>\<open>calculate_woba\<close> divides the weighted sum by
  \<open>AB + BB + SF + HBP\<close>, with the total walks of the record, when that is positive. The
  source reuses the variable \<^verbatim>\<open>bb\<close>, which holds the unintentional walks by then, so
  the divisor is \<open>AB + (BB - IBB) + SF + HBP\<close>. On the example record, with 18
  intentional walks, the two differ.
\<close>

theorem woba_denominator_counterexample:
  "calculate_woba trout_stats = 215309 / 551000
   \<and> woba_as_specified trout_stats = 215309 / 569000"
  unfolding calculate_woba_def woba_as_specified_def Let_def
  by (simp add: trout_stats_def get_def woba_weights_def)

text \<open>
  Claim C3 as amended: for every record, \<^verbatim>\<open>calculate_woba\<close> returns the linear-weighted
  sum of uBB, HBP, 1B, 2B, 3B and HR divided by \<open>AB + uBB + SF + HBP\<close>, where
  \<open>uBB = BB - IBB\<close> is the same unintentional-walk count as in the numerator, when that
  divisor is positive, and 0 otherwise.
\<close>

theorem calculate_woba_formula:
  "calculate_woba stats =
     (if get stats ''AB'' 0 + (get stats ''BB'' 0 - get stats ''IBB'' 0) + get stats ''SF'' 0
           + get stats ''HBP'' 0 > 0
      then (0.690 * (get stats ''BB'' 0 - get stats ''IBB'' 0) + 0.722 * get stats ''HBP'' 0
             + 0.888 * get stats ''1B'' 0 + 1.271 * get stats ''2B'' 0
             + 1.616 * get stats ''3B'' 0 + 2.101 * get stats ''HR'' 0)
           / (get stats ''AB'' 0 + (get stats ''BB'' 0 - get stats ''IBB'' 0)
                + get stats ''SF'' 0 + get stats ''HBP'' 0)
      else 0)"
  unfolding calculate_woba_def Let_def
  by (simp add: woba_weights_def)

text \<open>Without intentional walks the two divisors are the same.\<close>

lemma woba_as_specified_without_intentional_walks:
  "get stats ''IBB'' 0 = 0 \<Longrightarrow> calculate_woba stats = woba_as_specified stats"
  unfolding calculate_woba_def woba_as_specified_def Let_def
  by simp

section \<open>Records without at-bats\<close>

text \<open>
  Claim C5 says that for every valid record with \<open>AB = 0\<close> the basic statistics are all 0
  and so is the isolated power, whatever the other entries. OBP is guarded by the plate
  appearances, not by the at-bats: a batter who walked once and has no at-bat has an OBP
  of 1, and the OPS is the same.
\<close>

theorem zero_at_bats_counterexample:
  "valid_record walk_only \<and> get walk_only ''AB'' 0 = 0
   \<and> result_item (calculate_basic_stats walk_only) ''OBP'' = Inr 1
   \<and> result_item (calculate_basic_stats walk_only) ''OPS'' = Inr 1"
  unfolding calculate_basic_stats_def Let_def result_item_def valid_record_def
  by (simp add: walk_only_def get_def item_def and_then_def)

text \<open>
  Claim C5 as amended: for every record with \<open>AB = 0\<close>, valid or not, AVG and SLG are 0
  and \<^verbatim>\<open>calculate_iso\<close> returns 0; OBP is \<open>(H + BB + HBP) / (BB + SF + HBP)\<close> when
  \<open>BB + SF + HBP\<close> is positive and 0 otherwise, and OPS equals OBP.
\<close>

theorem zero_at_bats:
  assumes "get stats ''AB'' 0 = 0"
  shows "calculate_basic_stats stats =
           Inr [''AVG'' \<mapsto> 0,
                ''OBP'' \<mapsto> (if get stats ''BB'' 0 + get stats ''SF'' 0 + get stats ''HBP'' 0 > 0
                           then (get stats ''H'' 0 + get stats ''BB'' 0 + get stats ''HBP'' 0)
                                / (get stats ''BB'' 0 + get stats ''SF'' 0 + get stats ''HBP'' 0)
                           else 0),
                ''SLG'' \<mapsto> 0,
                ''OPS'' \<mapsto> (if get stats ''BB'' 0 + get stats ''SF'' 0 + get stats ''HBP'' 0 > 0
                           then (get stats ''H'' 0 + get stats ''BB'' 0 + get stats ''HBP'' 0)
                                / (get stats ''BB'' 0 + get stats ''SF'' 0 + get stats ''HBP'' 0)
                           else 0)]
         \<and> calculate_iso stats = Inr 0"
  unfolding calculate_iso_def calculate_basic_stats_def Let_def
  by (simp add: assms item_def and_then_def)

theorem zero_at_bats_witness:
  "get walk_only ''AB'' 0 = 0
   \<and> calculate_basic_stats walk_only
       = Inr [''AVG'' \<mapsto> 0, ''OBP'' \<mapsto> 1, ''SLG'' \<mapsto> 0, ''OPS'' \<mapsto> 1]
   \<and> calculate_iso walk_only = Inr 0"
proof -
  have ab: "get walk_only ''AB'' 0 = 0"
    by (simp add: walk_only_def get_def)
  have g: "get walk_only ''BB'' 0 = 1" "get walk_only ''SF'' 0 = 0"
    "get walk_only ''HBP'' 0 = 0" "get walk_only ''H'' 0 = 0"
    by (simp_all add: walk_only_def get_def)
  show ?thesis using ab zero_at_bats [OF ab] by (simp add: g)
qed

section \<open>Singles of a record without the key 1B\<close>

text \<open>
  Claim C6 says that wherever the singles of a record without the key \<^verbatim>\<open>1B\<close> are
  resolved, in the slugging percentage and in the wOBA numerator, they are
  \<open>H - 2B - 3B - HR\<close>, a negative value counted as 0. The slugging percentage derives the
  singles that way but keeps a negative value: one hit and two doubles in four at-bats give
  \<open>(-1 + 4) / 4\<close>, not \<open>(0 + 4) / 4\<close>. The wOBA numerator does not derive them at all: it
  reads \<^verbatim>\<open>stats.get('1B', 0)\<close>, so two hits without extra bases weigh nothing.
\<close>

theorem singles_counterexample:
  "more_doubles_than_hits ''1B'' = None
   \<and> result_item (calculate_basic_stats more_doubles_than_hits) ''SLG'' = Inr (3 / 4)
   \<and> slg_as_specified more_doubles_than_hits = 1
   \<and> two_hits_no_singles_key ''1B'' = None
   \<and> calculate_woba two_hits_no_singles_key = 0
   \<and> woba_with_singles_as_specified two_hits_no_singles_key = 111 / 250"
  unfolding calculate_basic_stats_def calculate_woba_def slg_as_specified_def
    woba_with_singles_as_specified_def singles_as_specified_def result_item_def Let_def
  by (simp add: more_doubles_than_hits_def two_hits_no_singles_key_def get_def item_def
        and_then_def woba_weights_def)

text \<open>
  Claim C6 as amended: for every record without the key \<^verbatim>\<open>1B\<close>, the slugging
  percentage of \<^verbatim>\<open>calculate_basic_stats\<close> is computed with the singles
  \<open>H - 2B - 3B - HR\<close>, used as they are, negative or not.
\<close>

theorem singles_derived_unclamped_in_basic_stats:
  assumes "stats ''1B'' = None"
  shows "result_item (calculate_basic_stats stats) ''SLG'' =
           Inr (if get stats ''AB'' 0 > 0
                then ((get stats ''H'' 0 - get stats ''2B'' 0 - get stats ''3B'' 0
                         - get stats ''HR'' 0)
                      + 2 * get stats ''2B'' 0 + 3 * get stats ''3B'' 0 + 4 * get stats ''HR'' 0)
                     / get stats ''AB'' 0
                else 0)"
proof -
  have s: "get stats ''1B'' d = d" for d
    by (simp add: get_def assms)
  show ?thesis
    unfolding calculate_basic_stats_def Let_def result_item_def
    by (simp add: s item_def and_then_def)
qed

theorem singles_derived_unclamped_in_basic_stats_witness:
  "more_doubles_than_hits ''1B'' = None
   \<and> result_item (calculate_basic_stats more_doubles_than_hits) ''SLG''
       = Inr ((1 - 2 - 0 - 0 + 2 * 2 + 3 * 0 + 4 * 0) / 4)"
proof -
  have n: "more_doubles_than_hits ''1B'' = None"
    by (simp add: more_doubles_than_hits_def)
  have g: "get more_doubles_than_hits ''AB'' 0 = 4" "get more_doubles_than_hits ''H'' 0 = 1"
    "get more_doubles_than_hits ''2B'' 0 = 2" "get more_doubles_than_hits ''3B'' 0 = 0"
    "get more_doubles_than_hits ''HR'' 0 = 0"
    by (simp_all add: more_doubles_than_hits_def get_def)
  show ?thesis
    using n singles_derived_unclamped_in_basic_stats [of more_doubles_than_hits, OF n]
    by (simp add: g)
qed

section \<open>Strikeouts per walk\<close>

text \<open>
  Claim C8: for every pitching record, the entry \<^verbatim>\<open>K_BB_ratio\<close> of
  \<^verbatim>\<open>calculate_pitcher_metrics\<close> is \<open>K / BB\<close> when \<open>BB > 0\<close>, is \<open>K\<close> itself when
  \<open>BB = 0\<close> and \<open>K > 0\<close>, and is 0 when both are 0. The function has no division without a
  guard and no subscript, so it returns a mapping for every record.
\<close>

theorem k_bb_ratio:
  "(0 < get pitching_stats ''BB'' 0 \<longrightarrow>
      calculate_pitcher_metrics pitching_stats ''K_BB_ratio''
        = Some (get pitching_stats ''K'' 0 / get pitching_stats ''BB'' 0))
   \<and> (get pitching_stats ''BB'' 0 = 0 \<and> 0 < get pitching_stats ''K'' 0 \<longrightarrow>
      calculate_pitcher_metrics pitching_stats ''K_BB_ratio''
        = Some (get pitching_stats ''K'' 0))
   \<and> (get pitching_stats ''BB'' 0 = 0 \<and> get pitching_stats ''K'' 0 = 0 \<longrightarrow>
      calculate_pitcher_metrics pitching_stats ''K_BB_ratio'' = Some 0)"
  unfolding calculate_pitcher_metrics_def Let_def
  by simp

theorem k_bb_ratio_witness:
  "0 < get (map_of [(''K'', 222), (''BB'', 45)]) ''BB'' 0
   \<and> calculate_pitcher_metrics (map_of [(''K'', 222), (''BB'', 45)]) ''K_BB_ratio''
       = Some (74 / 15)
   \<and> get (map_of [(''K'', 7), (''BB'', 0)]) ''BB'' 0 = 0
   \<and> 0 < get (map_of [(''K'', 7), (''BB'', 0)]) ''K'' 0
   \<and> calculate_pitcher_metrics (map_of [(''K'', 7), (''BB'', 0)]) ''K_BB_ratio'' = Some 7
   \<and> get Map.empty ''BB'' 0 = 0 \<and> get Map.empty ''K'' 0 = 0
   \<and> calculate_pitcher_metrics Map.empty ''K_BB_ratio'' = Some 0"
  using k_bb_ratio [of "map_of [(''K'', 222), (''BB'', 45)]"]
    k_bb_ratio [of "map_of [(''K'', 7), (''BB'', 0)]"]
    k_bb_ratio [of Map.empty]
  by (simp add: get_def)

end
